theory Spec2Isabelle
  imports Main
begin

section \<open>JavaScript strings\<close>

text \<open>
  A JavaScript string is a sequence of UTF-16 code units; \<open>length\<close>, \<open>slice\<close>,
  \<open>startsWith\<close> and the regular expressions \<open>\\d\<close>, \<open>\\D\<close> all work on code
  units. A string is therefore a list of code-unit numbers. The literals of
  \<open>index.js\<close> that the model needs are ASCII and are written \<open>str ''...''\<close>.
\<close>

type_synonym jsstring = "nat list"

definition str :: "string \<Rightarrow> jsstring" where
  "str s = map of_char s"

text \<open>\<open>\\d\<close> without the unicode flag is \<open>[0-9]\<close>.\<close>

definition isDigit :: "nat \<Rightarrow> bool" where
  "isDigit c = (48 \<le> c \<and> c \<le> 57)"

text \<open>
  The white space and line terminators that \<open>String.prototype.trim\<close> and
  \<open>parseInt\<close> strip: TAB, LF, VT, FF, CR, SP, NBSP, U+1680, U+2000..U+200A,
  U+2028, U+2029, U+202F, U+205F, U+3000, U+FEFF.
\<close>

definition isWhiteSpace :: "nat \<Rightarrow> bool" where
  "isWhiteSpace c =
     (c \<in> set [9, 10, 11, 12, 13, 32, 160, 5760, 8232, 8233, 8239, 8287, 12288, 65279]
      \<or> (8192 \<le> c \<and> c \<le> 8202))"

definition trimStart :: "jsstring \<Rightarrow> jsstring" where
  "trimStart s = dropWhile isWhiteSpace s"

definition trim :: "jsstring \<Rightarrow> jsstring" where
  "trim s = rev (dropWhile isWhiteSpace (rev (dropWhile isWhiteSpace s)))"

definition startsWith :: "jsstring \<Rightarrow> jsstring \<Rightarrow> bool" where
  "startsWith s p = (take (length p) s = p)"

text \<open>\<open>s.split(sep)\<close> for a one-unit separator: the empty string gives \<open>[""]\<close>.\<close>

fun js_split :: "nat \<Rightarrow> jsstring \<Rightarrow> jsstring list" where
  "js_split sep [] = [[]]"
| "js_split sep (c # cs) =
     (if c = sep then [] # js_split sep cs
      else (let r = js_split sep cs in (c # hd r) # tl r))"

text \<open>
  \<open>[...new Set(xs)]\<close>: the elements are added in order, adding an element the set
  already holds changes nothing, and the spread lists the set in insertion order.
\<close>

fun set_add_all :: "'a list \<Rightarrow> 'a list \<Rightarrow> 'a list" where
  "set_add_all seen [] = seen"
| "set_add_all seen (x # xs) =
     set_add_all (if x \<in> set seen then seen else seen @ [x]) xs"

definition new_Set :: "'a list \<Rightarrow> 'a list" where
  "new_Set xs = set_add_all [] xs"

section \<open>Contact normalisation (index.js, lines 72-96)\<close>

text \<open>
  \<open>n.replace(/\\D/g, "")\<close>, \<open>n.length >= 10\<close>, and
  \<open>n.startsWith("91") ? `+${n}` : `+91${n.slice(-10)}`\<close>.
  \<open>n.slice(-10)\<close> is the last ten code units (the whole string when it is shorter).
\<close>

definition strip_non_digits :: "jsstring \<Rightarrow> jsstring" where
  "strip_non_digits n = filter isDigit n"

definition slice_last :: "nat \<Rightarrow> jsstring \<Rightarrow> jsstring" where
  "slice_last k n = drop (length n - k) n"

definition add_country_code :: "jsstring \<Rightarrow> jsstring" where
  "add_country_code n =
     (if startsWith n (str ''91'') then str ''+'' @ n
      else str ''+91'' @ slice_last 10 n)"

definition normalize_numbers :: "jsstring list \<Rightarrow> jsstring list" where
  "normalize_numbers numbers =
     new_Set (map add_country_code
       (filter (\<lambda>n. length n \<ge> 10) (map strip_non_digits numbers)))"

text \<open>
  The raw entries (lines 72-88). \<open>req.body.numbers\<close> is absent or a string; the
  spreadsheet is read by the external XLSX library, so the model takes what the handler
  sees of it: the parse either throws or yields, for every row, the first column's value
  as \<open>String(cell || "")\<close>.
\<close>

datatype js_error = Error jsstring

definition textarea_numbers :: "jsstring option \<Rightarrow> jsstring list" where
  "textarea_numbers f =
     (case f of
        None \<Rightarrow> []
      | Some s \<Rightarrow> if trim s \<noteq> [] then map trim (js_split 44 s) else [])"

definition excelNumbers :: "jsstring list \<Rightarrow> jsstring list" where
  "excelNumbers cells =
     filter (\<lambda>val. val \<noteq> [] \<and> list_all isDigit val) (map trim cells)"

section \<open>Pacing delay (index.js, line 115)\<close>

text \<open>
  \<open>parseInt(x)\<close> with no radix: \<open>ToString(x)\<close>, leading white space stripped, an
  optional sign, a \<open>0x\<close>/\<open>0X\<close> prefix switching to radix 16, then the longest run of
  digits of the radix; \<open>NaN\<close> (here \<open>None\<close>) when that run is empty. The value is an
  exact integer here; JavaScript rounds magnitudes above \<open>2^53\<close> to the nearest double.
\<close>

definition digit_value :: "nat \<Rightarrow> nat \<Rightarrow> nat option" where
  "digit_value radix c =
     (let v = (if 48 \<le> c \<and> c \<le> 57 then Some (c - 48)
               else if 97 \<le> c \<and> c \<le> 122 then Some (c - 87)
               else if 65 \<le> c \<and> c \<le> 90 then Some (c - 55)
               else None)
      in case v of None \<Rightarrow> None | Some d \<Rightarrow> if d < radix then Some d else None)"

fun leading_digits :: "nat \<Rightarrow> jsstring \<Rightarrow> nat list" where
  "leading_digits radix [] = []"
| "leading_digits radix (c # cs) =
     (case digit_value radix c of
        None \<Rightarrow> []
      | Some d \<Rightarrow> d # leading_digits radix cs)"

definition radix_value :: "nat \<Rightarrow> nat list \<Rightarrow> nat" where
  "radix_value radix ds = fold (\<lambda>d acc. acc * radix + d) ds 0"

definition ToString :: "jsstring option \<Rightarrow> jsstring" where
  "ToString x = (case x of None \<Rightarrow> str ''undefined'' | Some s \<Rightarrow> s)"

definition parseInt :: "jsstring option \<Rightarrow> int option" where
  "parseInt x =
     (let s0 = trimStart (ToString x);
          negative = (s0 \<noteq> [] \<and> hd s0 = 45);
          s1 = (if s0 \<noteq> [] \<and> (hd s0 = 43 \<or> hd s0 = 45) then tl s0 else s0);
          hex = (startsWith s1 (str ''0x'') \<or> startsWith s1 (str ''0X''));
          radix = (if hex then 16 else 10);
          z = leading_digits radix (if hex then drop 2 s1 else s1)
      in if z = [] then None
         else Some ((if negative then - 1 else 1) * int (radix_value radix z)))"

text \<open>\<open>x || d\<close> on a number: \<open>NaN\<close> and \<open>0\<close> are falsy.\<close>

definition or_default :: "int option \<Rightarrow> int \<Rightarrow> int" where
  "or_default x d = (case x of None \<Rightarrow> d | Some n \<Rightarrow> if n = 0 then d else n)"

text \<open>\<open>Math.max(parseInt(req.body.delay) || 2000, 1500)\<close>.\<close>

definition msgDelay_of :: "jsstring option \<Rightarrow> int" where
  "msgDelay_of delay_field = max (or_default (parseInt delay_field) 2000) 1500"

section \<open>The dispatch job (index.js, lines 116-180)\<close>

text \<open>
  The uploaded media file as express-fileupload hands it over: \<open>mediaFile.mimetype\<close>,
  \<open>mediaFile.size\<close>, \<open>mediaFile.name\<close>.
\<close>

record media_file =
  mimetype :: jsstring
  fsize :: nat
  fname :: jsstring

text \<open>
  What \<open>client.sendMessage\<close> is given: the message text, or the media object with
  the message as its caption.
\<close>

datatype content = TextMsg jsstring | MediaMsg media_file jsstring

text \<open>
  The status strings of \<open>io.emit("status", ...)\<close>, one constructor per template,
  holding the values the template interpolates.
\<close>

datatype status_event =
    SkippedNotOnWhatsApp jsstring
  | SkippedInvalidType jsstring
  | SkippedTooLarge jsstring
  | SkippedPlain jsstring
  | SentTo nat nat jsstring
  | FailedTo nat nat jsstring
  | FailedWith nat nat jsstring jsstring
  | Done nat nat nat

text \<open>The externally visible actions of a job, in the order they happen.\<close>

datatype action =
    CallIsRegisteredUser jsstring
  | Emit status_event
  | Mv jsstring
  | ReadFileSync jsstring
  | CallSendMessage jsstring content
  | UnlinkSync jsstring
  | Delay int

text \<open>
  The collaborators are external and stateful, so what they answer to the call made in
  iteration \<open>i\<close> is given by the environment: \<open>client.isRegisteredUser(chatId)\<close>
  resolves to a boolean or rejects, \<open>client.sendMessage(chatId, content)\<close> and
  \<open>mediaFile.mv(path)\<close> resolve or reject. A rejection carries an \<open>Error\<close> object.
  \<open>client_ready\<close> is \<open>client.info && client.info.wid\<close> when the request arrives.
\<close>

record environment =
  client_ready :: bool
  isRegisteredUser :: "nat \<Rightarrow> jsstring \<Rightarrow> js_error + bool"
  sendMessage :: "nat \<Rightarrow> jsstring \<Rightarrow> content \<Rightarrow> js_error + unit"
  mv :: "nat \<Rightarrow> jsstring \<Rightarrow> js_error + unit"

text \<open>What the loop's closure captures.\<close>

record job =
  numbers :: "jsstring list"
  message :: jsstring
  mediaFile :: "media_file option"
  msgDelay :: int

text \<open>
  The variables the loop mutates, the scratch files the job has written to the uploads
  directory and not removed, and the actions so far.
\<close>

record job_state =
  sentCount :: nat
  skippedCount :: nat
  failedCount :: nat
  uploads :: "jsstring set"
  trace :: "action list"

definition init_state :: job_state where
  "init_state = \<lparr>sentCount = 0, skippedCount = 0, failedCount = 0, uploads = {}, trace = []\<rparr>"

definition log_action :: "action \<Rightarrow> job_state \<Rightarrow> job_state" where
  "log_action a s = s\<lparr>trace := trace s @ [a]\<rparr>"

definition emit :: "status_event \<Rightarrow> job_state \<Rightarrow> job_state" where
  "emit e s = log_action (Emit e) s"

definition delay :: "int \<Rightarrow> job_state \<Rightarrow> job_state" where
  "delay ms s = log_action (Delay ms) s"

text \<open>
  \<open>delay\<close> (line 62) hands its argument to \<open>setTimeout\<close>. The timer of Node.js
  takes a delay from 1 to 2147483647 ms as it is and sets any other delay to 1 ms. This
  is the rule of the runtime, not code of \<open>index.js\<close>: it says how long the loop
  pauses for the number it hands over.
\<close>

definition timer_pause :: "int \<Rightarrow> int" where
  "timer_pause ms = (if ms < 1 \<or> 2147483647 < ms then 1 else ms)"

text \<open>\<open>number.replace("+", "") + "@c.us"\<close>: only the first \<open>+\<close> is removed.\<close>

definition chatId_of :: "jsstring \<Rightarrow> jsstring" where
  "chatId_of number = remove1 43 number @ str ''@c.us''"

text \<open>\<open>path.join(uploadsDir, mediaFile.name)\<close>, without the normalisation of the path.\<close>

definition uploadPath_of :: "media_file \<Rightarrow> jsstring" where
  "uploadPath_of mf = str ''uploads/'' @ fname mf"

text \<open>How a \<open>try\<close> block is left: at its end, by \<open>continue\<close>, or by a throw.\<close>

datatype completion = Normal | Continue | Thrown js_error

text \<open>Lines 164-165: \<open>sentCount++\<close> and the success event.\<close>

definition after_send :: "job \<Rightarrow> nat \<Rightarrow> job_state \<Rightarrow> completion \<times> job_state" where
  "after_send j i s =
     (Normal, emit (SentTo (i + 1) (length (numbers j)) (numbers j ! i))
                (s\<lparr>sentCount := sentCount s + 1\<rparr>))"

text \<open>Lines 135-162: the media path with its scratch file, or the text path.\<close>

definition send_step :: "environment \<Rightarrow> job \<Rightarrow> nat \<Rightarrow> job_state \<Rightarrow> completion \<times> job_state" where
  "send_step env j i s =
     (let number = numbers j ! i; chatId = chatId_of number in
      case mediaFile j of
        Some mf \<Rightarrow>
          if \<not> startsWith (mimetype mf) (str ''video/'') \<and>
             \<not> startsWith (mimetype mf) (str ''image/'')
          then (Continue, (emit (SkippedInvalidType number) s)
                            \<lparr>skippedCount := skippedCount s + 1\<rparr>)
          else if fsize mf > 16 * 1024 * 1024
          then (Continue, (emit (SkippedTooLarge number) s)
                            \<lparr>skippedCount := skippedCount s + 1\<rparr>)
          else
            (let uploadPath = uploadPath_of mf; s1 = log_action (Mv uploadPath) s in
             case mv env i uploadPath of
               Inl err \<Rightarrow> (Thrown err, s1)
             | Inr _ \<Rightarrow>
                 (let s2 = log_action (ReadFileSync uploadPath)
                             (s1\<lparr>uploads := insert uploadPath (uploads s1)\<rparr>);
                      media = MediaMsg mf (message j);
                      s3 = log_action (CallSendMessage chatId media) s2 in
                  case sendMessage env i chatId media of
                    Inl err \<Rightarrow> (Thrown err, s3)
                  | Inr _ \<Rightarrow>
                      after_send j i
                        (log_action (UnlinkSync uploadPath)
                           (s3\<lparr>uploads := uploads s3 - {uploadPath}\<rparr>))))
      | None \<Rightarrow>
          (let s1 = log_action (CallSendMessage chatId (TextMsg (message j))) s in
           case sendMessage env i chatId (TextMsg (message j)) of
             Inl err \<Rightarrow> (Thrown err, s1)
           | Inr _ \<Rightarrow> after_send j i s1))"

text \<open>Lines 126-165: the body of the \<open>try\<close>.\<close>

definition try_body :: "environment \<Rightarrow> job \<Rightarrow> nat \<Rightarrow> job_state \<Rightarrow> completion \<times> job_state" where
  "try_body env j i s =
     (let number = numbers j ! i; chatId = chatId_of number;
          s1 = log_action (CallIsRegisteredUser chatId) s in
      case isRegisteredUser env i chatId of
        Inl err \<Rightarrow> (Thrown err, s1)
      | Inr isRegistered \<Rightarrow>
          if \<not> isRegistered
          then (Continue, emit (SkippedNotOnWhatsApp number)
                            (s1\<lparr>skippedCount := skippedCount s1 + 1\<rparr>))
          else send_step env j i s1)"

text \<open>Lines 166-171: the \<open>catch\<close>.\<close>

definition catch_block :: "job \<Rightarrow> nat \<Rightarrow> job_state \<Rightarrow> job_state" where
  "catch_block j i s =
     emit (FailedTo (i + 1) (length (numbers j)) (numbers j ! i))
       (s\<lparr>failedCount := failedCount s + 1\<rparr>)"

text \<open>
  One pass through the loop body (lines 123-173). \<open>continue\<close> jumps to \<open>i++\<close>, past
  \<open>await delay(msgDelay)\<close>; leaving the \<open>try\<close> at its end, or through the
  \<open>catch\<close>, reaches it.
\<close>

definition iteration :: "environment \<Rightarrow> job \<Rightarrow> nat \<Rightarrow> job_state \<Rightarrow> job_state" where
  "iteration env j i s =
     (case try_body env j i s of
        (Continue, s') \<Rightarrow> s'
      | (Normal, s') \<Rightarrow> delay (msgDelay j) s'
      | (Thrown err, s') \<Rightarrow> delay (msgDelay j) (catch_block j i s'))"

text \<open>\<open>for (let i = 0; i < total; i++)\<close>, entered at \<open>i\<close>.\<close>

function dispatch_loop :: "environment \<Rightarrow> job \<Rightarrow> nat \<Rightarrow> job_state \<Rightarrow> job_state" where
  "dispatch_loop env j i s =
     (if i < length (numbers j) then dispatch_loop env j (Suc i) (iteration env j i s)
      else s)"
  by pat_completeness auto
termination
  by (relation "measure (\<lambda>(env, j, i, s). length (numbers j) - i)") auto

declare dispatch_loop.simps [simp del]

text \<open>The asynchronous job (lines 120-180): the loop, then the summary event.\<close>

definition dispatch_job :: "environment \<Rightarrow> job \<Rightarrow> job_state" where
  "dispatch_job env j =
     (let s = dispatch_loop env j 0 init_state in
      emit (Done (sentCount s) (skippedCount s) (failedCount s)) s)"

section \<open>The request handler (index.js, lines 65-187 and 289-394)\<close>

text \<open>
  The two handlers with a readiness guard have the same logic; they differ in console
  output only. \<open>req.body.numbers\<close>, \<open>req.body.message\<close> and \<open>req.body.delay\<close> are
  absent or strings, as a form post has them.
\<close>

record request =
  body_numbers :: "jsstring option"
  body_message :: "jsstring option"
  body_delay :: "jsstring option"
  files_excel :: "(js_error + jsstring list) option"
  files_media :: "media_file option"

datatype response = Status400 jsstring | Status500 jsstring | Sending nat

text \<open>Lines 72-88; a throw of the spreadsheet parse reaches the outer \<open>catch\<close>.\<close>

definition raw_numbers :: "request \<Rightarrow> js_error + jsstring list" where
  "raw_numbers req =
     (let numbers = textarea_numbers (body_numbers req) in
      case files_excel req of
        None \<Rightarrow> Inr numbers
      | Some (Inl err) \<Rightarrow> Inl err
      | Some (Inr cells) \<Rightarrow> Inr (numbers @ excelNumbers cells))"

text \<open>\<open>req.body.message || ""\<close>.\<close>

definition message_of :: "request \<Rightarrow> jsstring" where
  "message_of req = (case body_message req of None \<Rightarrow> [] | Some m \<Rightarrow> m)"

text \<open>\<open>!message.trim() && !mediaFile\<close> (line 111).\<close>

definition nothing_to_send :: "jsstring \<Rightarrow> media_file option \<Rightarrow> bool" where
  "nothing_to_send msg mf = (trim msg = [] \<and> mf = None)"

text \<open>
  The handler's result: its response, and the final state of the job it started, if it
  started one. The job runs detached from the response.
\<close>

definition send_handler :: "environment \<Rightarrow> request \<Rightarrow> response \<times> job_state option" where
  "send_handler env req =
     (if \<not> client_ready env
      then (Status400 (str ''WhatsApp not ready. Please scan QR.''), None)
      else
        case raw_numbers req of
          Inl err \<Rightarrow> (Status500 (str ''Internal Server Error''), None)
        | Inr raw \<Rightarrow>
            (let nums = normalize_numbers raw in
             if nums = [] then (Status400 (str ''No valid numbers found.''), None)
             else
               (let msg = message_of req; mf = files_media req in
                if nothing_to_send msg mf
                then (Status400 (str ''Message or media is required.''), None)
                else
                  (Sending (length nums),
                   Some (dispatch_job env
                     \<lparr>numbers = nums, message = msg, mediaFile = mf,
                      msgDelay = msgDelay_of (body_delay req)\<rparr>)))))"

section \<open>The third handler (index.js, lines 454-552)\<close>

text \<open>
  The footer appended to every message (lines 488-491), as UTF-16 code units: two line
  feeds, the emoji as surrogate pairs, the ASCII text in between.
\<close>

definition footer :: jsstring where
  "footer =
     [10, 10, 55357, 57321] @ str '' *'' @ [55357, 56542] @
     str '' CALL US 9723625050*  '' @ [10, 55357, 57321, 32, 55356, 57104] @
     str '' *VISIT NOW* https://www.promiseacademy.co.in/''"

text \<open>Lines 508-528: no media checks, no scratch file.\<close>

definition try_body_v3 :: "environment \<Rightarrow> job \<Rightarrow> nat \<Rightarrow> job_state \<Rightarrow> completion \<times> job_state" where
  "try_body_v3 env j i s =
     (let chatId = chatId_of (numbers j ! i);
          s1 = log_action (CallIsRegisteredUser chatId) s in
      case isRegisteredUser env i chatId of
        Inl err \<Rightarrow> (Thrown err, s1)
      | Inr isRegistered \<Rightarrow>
          if \<not> isRegistered
          then (Continue, emit (SkippedPlain (numbers j ! i))
                            (s1\<lparr>skippedCount := skippedCount s1 + 1\<rparr>))
          else
            (let c = (case mediaFile j of
                        Some mf \<Rightarrow> MediaMsg mf (message j)
                      | None \<Rightarrow> TextMsg (message j));
                 s2 = log_action (CallSendMessage chatId c) s1 in
             case sendMessage env i chatId c of
               Inl err \<Rightarrow> (Thrown err, s2)
             | Inr _ \<Rightarrow> after_send j i s2))"

definition catch_block_v3 :: "job \<Rightarrow> nat \<Rightarrow> js_error \<Rightarrow> job_state \<Rightarrow> job_state" where
  "catch_block_v3 j i err s =
     (case err of Error msg \<Rightarrow>
        emit (FailedWith (i + 1) (length (numbers j)) (numbers j ! i) msg)
          (s\<lparr>failedCount := failedCount s + 1\<rparr>))"

definition iteration_v3 :: "environment \<Rightarrow> job \<Rightarrow> nat \<Rightarrow> job_state \<Rightarrow> job_state" where
  "iteration_v3 env j i s =
     (case try_body_v3 env j i s of
        (Continue, s') \<Rightarrow> s'
      | (Normal, s') \<Rightarrow> delay (msgDelay j) s'
      | (Thrown err, s') \<Rightarrow> delay (msgDelay j) (catch_block_v3 j i err s'))"

function dispatch_loop_v3 :: "environment \<Rightarrow> job \<Rightarrow> nat \<Rightarrow> job_state \<Rightarrow> job_state" where
  "dispatch_loop_v3 env j i s =
     (if i < length (numbers j) then dispatch_loop_v3 env j (Suc i) (iteration_v3 env j i s)
      else s)"
  by pat_completeness auto
termination
  by (relation "measure (\<lambda>(env, j, i, s). length (numbers j) - i)") auto

declare dispatch_loop_v3.simps [simp del]

definition dispatch_job_v3 :: "environment \<Rightarrow> job \<Rightarrow> job_state" where
  "dispatch_job_v3 env j =
     (let s = dispatch_loop_v3 env j 0 init_state in
      emit (Done (sentCount s) (skippedCount s) (failedCount s)) s)"

text \<open>The handler starts at the numbers: it has no readiness guard.\<close>

definition send_handler_v3 :: "environment \<Rightarrow> request \<Rightarrow> response \<times> job_state option" where
  "send_handler_v3 env req =
     (case raw_numbers req of
        Inl err \<Rightarrow> (Status500 (str ''Internal Server Error''), None)
      | Inr raw \<Rightarrow>
          (let nums = normalize_numbers raw in
           if nums = [] then (Status400 (str ''No valid numbers found.''), None)
           else
             (let msg = message_of req @ footer; mf = files_media req in
              if nothing_to_send msg mf
              then (Status400 (str ''Message or media is required.''), None)
              else
                (Sending (length nums),
                 Some (dispatch_job_v3 env
                   \<lparr>numbers = nums, message = msg, mediaFile = mf,
                    msgDelay = msgDelay_of (body_delay req)\<rparr>)))))"

section \<open>Reading a run\<close>

text \<open>
  The actions one iteration adds to the trace. Running the iteration from any state
  appends exactly these (lemma \<open>iteration_trace\<close> below).
\<close>

definition iteration_actions :: "environment \<Rightarrow> job \<Rightarrow> nat \<Rightarrow> action list" where
  "iteration_actions env j i = trace (iteration env j i init_state)"

text \<open>The status events of a trace, in order.\<close>

fun emitted :: "action list \<Rightarrow> status_event list" where
  "emitted [] = []"
| "emitted (Emit e # as) = e # emitted as"
| "emitted (a # as) = emitted as"

text \<open>The recipient a per-recipient event names; the summary names none.\<close>

fun event_number :: "status_event \<Rightarrow> jsstring option" where
  "event_number (SkippedNotOnWhatsApp n) = Some n"
| "event_number (SkippedInvalidType n) = Some n"
| "event_number (SkippedTooLarge n) = Some n"
| "event_number (SkippedPlain n) = Some n"
| "event_number (SentTo k t n) = Some n"
| "event_number (FailedTo k t n) = Some n"
| "event_number (FailedWith k t n m) = Some n"
| "event_number (Done a b c) = None"

fun is_send :: "action \<Rightarrow> bool" where
  "is_send (CallSendMessage c m) = True"
| "is_send a = False"

fun is_delay :: "action \<Rightarrow> bool" where
  "is_delay (Delay ms) = True"
| "is_delay a = False"

fun is_emit :: "action \<Rightarrow> bool" where
  "is_emit (Emit e) = True"
| "is_emit a = False"

text \<open>
  The normalisation rule in the words of the specification: strip the non-digits,
  discard fewer than ten digits, keep a string that starts with the home country code
  behind a plus sign, and otherwise put the plus sign and the country code before the
  last ten digits.
\<close>

definition spec_recipient_id :: "jsstring \<Rightarrow> jsstring option" where
  "spec_recipient_id entry =
     (let digits = filter isDigit entry in
      if length digits < 10 then None
      else if take 2 digits = str ''91'' then Some (str ''+'' @ digits)
      else Some (str ''+91'' @ drop (length digits - 10) digits))"

section \<open>Example inputs\<close>

definition two_numbers :: "jsstring list" where
  "two_numbers = [str ''+919876543210'', str ''+919876543211'']"

definition five_numbers :: "jsstring list" where
  "five_numbers = [str ''+919876543210'', str ''+919876543211'', str ''+919876543212'',
                   str ''+919876543213'', str ''+919876543214'']"

definition env_all_sent :: environment where
  "env_all_sent = \<lparr>client_ready = True, isRegisteredUser = (\<lambda>i c. Inr True),
     sendMessage = (\<lambda>i c m. Inr ()), mv = (\<lambda>i p. Inr ())\<rparr>"

definition env_none_registered :: environment where
  "env_none_registered = \<lparr>client_ready = True, isRegisteredUser = (\<lambda>i c. Inr False),
     sendMessage = (\<lambda>i c m. Inr ()), mv = (\<lambda>i p. Inr ())\<rparr>"

definition env_send_rejects :: environment where
  "env_send_rejects = \<lparr>client_ready = True, isRegisteredUser = (\<lambda>i c. Inr True),
     sendMessage = (\<lambda>i c m. Inl (Error (str ''Evaluation failed''))), mv = (\<lambda>i p. Inr ())\<rparr>"

definition env_third_send_rejects :: environment where
  "env_third_send_rejects = \<lparr>client_ready = True, isRegisteredUser = (\<lambda>i c. Inr True),
     sendMessage = (\<lambda>i c m. if i = 2 then Inl (Error (str ''Evaluation failed'')) else Inr ()),
     mv = (\<lambda>i p. Inr ())\<rparr>"

definition env_registration_rejects :: environment where
  "env_registration_rejects = \<lparr>client_ready = True,
     isRegisteredUser = (\<lambda>i c. Inl (Error (str ''Evaluation failed''))),
     sendMessage = (\<lambda>i c m. Inr ()), mv = (\<lambda>i p. Inr ())\<rparr>"

definition env_not_ready :: environment where
  "env_not_ready = \<lparr>client_ready = False, isRegisteredUser = (\<lambda>i c. Inr True),
     sendMessage = (\<lambda>i c m. Inr ()), mv = (\<lambda>i p. Inr ())\<rparr>"

definition picture :: media_file where
  "picture = \<lparr>mimetype = str ''image/png'', fsize = 2048, fname = str ''a.png''\<rparr>"

definition document :: media_file where
  "document = \<lparr>mimetype = str ''application/pdf'', fsize = 2048, fname = str ''a.pdf''\<rparr>"

definition long_video :: media_file where
  "long_video =
     \<lparr>mimetype = str ''video/mp4'', fsize = 16 * 1024 * 1024 + 1, fname = str ''a.mp4''\<rparr>"

definition text_job :: "jsstring list \<Rightarrow> job" where
  "text_job ns = \<lparr>numbers = ns, message = str ''hi'', mediaFile = None, msgDelay = 1500\<rparr>"

definition media_job :: "jsstring list \<Rightarrow> media_file \<Rightarrow> job" where
  "media_job ns mf =
     \<lparr>numbers = ns, message = str ''hi'', mediaFile = Some mf, msgDelay = 1500\<rparr>"

definition form_post :: "jsstring option \<Rightarrow> media_file option \<Rightarrow> request" where
  "form_post msg mf =
     \<lparr>body_numbers = Some (str ''9876543210''), body_message = msg, body_delay = None,
      files_excel = None, files_media = mf\<rparr>"

section \<open>Facts about the helpers\<close>

lemmas example_defs = two_numbers_def five_numbers_def env_all_sent_def env_none_registered_def
  env_send_rejects_def env_third_send_rejects_def env_registration_rejects_def
  env_not_ready_def picture_def document_def long_video_def text_job_def media_job_def

lemmas iteration_defs = iteration_def try_body_def send_step_def after_send_def
  catch_block_def emit_def delay_def log_action_def Let_def

lemmas run_defs = dispatch_job_def iteration_defs init_state_def chatId_of_def uploadPath_of_def
  startsWith_def str_def

lemma set_add_all_set: "set (set_add_all seen xs) = set seen \<union> set xs"
  by (induction xs arbitrary: seen) auto

lemma set_add_all_distinct: "distinct seen \<Longrightarrow> distinct (set_add_all seen xs)"
  by (induction xs arbitrary: seen) auto

lemma new_Set_set: "set (new_Set xs) = set xs"
  by (simp add: new_Set_def set_add_all_set)

lemma new_Set_distinct: "distinct (new_Set xs)"
  by (simp add: new_Set_def set_add_all_distinct)

lemma length_str_91: "length (str ''91'') = 2"
  by (simp add: str_def)

lemma add_country_code_spec:
  "length (strip_non_digits r) \<ge> 10 \<Longrightarrow>
   spec_recipient_id r = Some (add_country_code (strip_non_digits r))"
  by (simp add: spec_recipient_id_def add_country_code_def strip_non_digits_def
      startsWith_def slice_last_def Let_def length_str_91)

lemma spec_recipient_id_None:
  "\<not> length (strip_non_digits r) \<ge> 10 \<Longrightarrow> spec_recipient_id r = None"
  by (simp add: spec_recipient_id_def strip_non_digits_def Let_def)

lemma normalize_numbers_set:
  "set (normalize_numbers raw) = {y. \<exists>r \<in> set raw. spec_recipient_id r = Some y}"
proof (rule set_eqI)
  fix y
  show "y \<in> set (normalize_numbers raw) \<longleftrightarrow>
        y \<in> {y. \<exists>r \<in> set raw. spec_recipient_id r = Some y}"
  proof
    assume "y \<in> set (normalize_numbers raw)"
    then obtain r where r: "r \<in> set raw" "length (strip_non_digits r) \<ge> 10"
        "y = add_country_code (strip_non_digits r)"
      by (auto simp: normalize_numbers_def new_Set_set)
    then show "y \<in> {y. \<exists>r \<in> set raw. spec_recipient_id r = Some y}"
      using add_country_code_spec [of r] by auto
  next
    assume "y \<in> {y. \<exists>r \<in> set raw. spec_recipient_id r = Some y}"
    then obtain r where r: "r \<in> set raw" "spec_recipient_id r = Some y" by auto
    then have len: "length (strip_non_digits r) \<ge> 10"
      using spec_recipient_id_None [of r] by (cases "length (strip_non_digits r) \<ge> 10") auto
    with r have "y = add_country_code (strip_non_digits r)"
      using add_country_code_spec [of r] by simp
    with r len show "y \<in> set (normalize_numbers raw)"
      by (auto simp: normalize_numbers_def new_Set_set)
  qed
qed

section \<open>Facts about one iteration and about the loop\<close>

lemma iteration_trace:
  "trace (iteration env j i s) = trace s @ iteration_actions env j i"
  by (simp add: iteration_actions_def iteration_defs init_state_def split: sum.splits option.splits)

lemma iteration_sentCount:
  "sentCount (iteration env j i s) = sentCount s + sentCount (iteration env j i init_state)"
  by (simp add: iteration_defs init_state_def split: sum.splits option.splits)

lemma iteration_skippedCount:
  "skippedCount (iteration env j i s) = skippedCount s + skippedCount (iteration env j i init_state)"
  by (simp add: iteration_defs init_state_def split: sum.splits option.splits)

lemma iteration_failedCount:
  "failedCount (iteration env j i s) = failedCount s + failedCount (iteration env j i init_state)"
  by (simp add: iteration_defs init_state_def split: sum.splits option.splits)

lemma iteration_pacing:
  "(skippedCount (iteration env j i init_state) = 1 \<and>
    sentCount (iteration env j i init_state) = 0 \<and>
    failedCount (iteration env j i init_state) = 0 \<and>
    filter is_delay (iteration_actions env j i) = []) \<or>
   (skippedCount (iteration env j i init_state) = 0 \<and>
    sentCount (iteration env j i init_state) + failedCount (iteration env j i init_state) = 1 \<and>
    filter is_delay (iteration_actions env j i) = [Delay (msgDelay j)] \<and>
    last (iteration_actions env j i) = Delay (msgDelay j))"
  unfolding iteration_actions_def
  by (simp add: iteration_defs init_state_def split: sum.splits option.splits)

lemma iteration_unregistered:
  assumes "isRegisteredUser env i (chatId_of (numbers j ! i)) = Inr False"
  shows "iteration env j i s =
    s\<lparr>skippedCount := skippedCount s + 1,
      trace := trace s @ [CallIsRegisteredUser (chatId_of (numbers j ! i)),
                          Emit (SkippedNotOnWhatsApp (numbers j ! i))]\<rparr>"
  using assms by (simp add: iteration_defs)

lemma iteration_invalid_type:
  assumes "isRegisteredUser env i (chatId_of (numbers j ! i)) = Inr True"
    and "mediaFile j = Some mf"
    and "\<not> startsWith (mimetype mf) (str ''video/'')"
    and "\<not> startsWith (mimetype mf) (str ''image/'')"
  shows "iteration env j i s =
    s\<lparr>skippedCount := skippedCount s + 1,
      trace := trace s @ [CallIsRegisteredUser (chatId_of (numbers j ! i)),
                          Emit (SkippedInvalidType (numbers j ! i))]\<rparr>"
  using assms by (simp add: iteration_defs)

lemma iteration_too_large:
  assumes "isRegisteredUser env i (chatId_of (numbers j ! i)) = Inr True"
    and "mediaFile j = Some mf"
    and "startsWith (mimetype mf) (str ''video/'') \<or> startsWith (mimetype mf) (str ''image/'')"
    and "fsize mf > 16 * 1024 * 1024"
  shows "iteration env j i s =
    s\<lparr>skippedCount := skippedCount s + 1,
      trace := trace s @ [CallIsRegisteredUser (chatId_of (numbers j ! i)),
                          Emit (SkippedTooLarge (numbers j ! i))]\<rparr>"
  using assms by (auto simp add: iteration_defs)

lemma first_emit_shape:
  assumes "dropWhile (\<lambda>a. \<not> is_emit a) t = Emit e # after"
    and "event_number e = Some n" and "list_all is_delay after"
  shows "\<exists>before e after.
      t = before @ [Emit e] @ after \<and> event_number e = Some n \<and>
      list_all (\<lambda>a. \<not> is_emit a) before \<and> list_all is_delay after"
proof -
  have "t = takeWhile (\<lambda>a. \<not> is_emit a) t @ [Emit e] @ after"
    using assms(1) takeWhile_dropWhile_id [of "\<lambda>a. \<not> is_emit a" t] by simp
  moreover have "list_all (\<lambda>a. \<not> is_emit a) (takeWhile (\<lambda>a. \<not> is_emit a) t)"
    by (auto simp: list_all_iff dest: set_takeWhileD)
  ultimately show ?thesis using assms(2,3) by blast
qed

lemma iteration_events:
  "\<exists>before e after.
      iteration_actions env j i = before @ [Emit e] @ after \<and>
      event_number e = Some (numbers j ! i) \<and>
      list_all (\<lambda>a. \<not> is_emit a) before \<and> list_all is_delay after"
proof -
  have "\<exists>e after. dropWhile (\<lambda>a. \<not> is_emit a) (iteration_actions env j i) = Emit e # after
      \<and> event_number e = Some (numbers j ! i) \<and> list_all is_delay after"
    unfolding iteration_actions_def
    by (simp add: iteration_defs init_state_def split: sum.splits option.splits)
  then show ?thesis
    using first_emit_shape by blast
qed

lemma iteration_emitted:
  "map event_number (emitted (iteration_actions env j i)) = [Some (numbers j ! i)]"
  unfolding iteration_actions_def
  by (simp add: iteration_defs init_state_def split: sum.splits option.splits)

lemma iteration_delays:
  "list_all (\<lambda>a. is_delay a \<longrightarrow> a = Delay (msgDelay j)) (iteration_actions env j i)"
  unfolding iteration_actions_def
  by (simp add: iteration_defs init_state_def split: sum.splits option.splits)

lemma send_step_ignores_readiness:
  "send_step (env\<lparr>client_ready := b\<rparr>) j i s = send_step env j i s"
  by (simp add: send_step_def Let_def split: option.splits sum.splits)

lemma try_body_ignores_readiness:
  "try_body (env\<lparr>client_ready := b\<rparr>) j i s = try_body env j i s"
  by (simp add: try_body_def send_step_ignores_readiness Let_def split: sum.splits)

lemma iteration_ignores_readiness:
  "iteration (env\<lparr>client_ready := b\<rparr>) j i s = iteration env j i s"
  by (simp add: iteration_def try_body_ignores_readiness)

text \<open>The loop.\<close>

lemma dispatch_loop_trace:
  "trace (dispatch_loop env j i s) =
     trace s @ concat (map (iteration_actions env j) [i..<length (numbers j)])"
proof (induction env j i s rule: dispatch_loop.induct)
  case (1 env j i s)
  show ?case
  proof (cases "i < length (numbers j)")
    case True
    then show ?thesis
      using "1.IH" [OF True] iteration_trace [of env j i s]
      by (subst dispatch_loop.simps) (simp add: upt_conv_Cons)
  next
    case False
    then show ?thesis by (subst dispatch_loop.simps) simp
  qed
qed

lemma dispatch_loop_sentCount:
  "sentCount (dispatch_loop env j i s) =
     sentCount s + sum_list (map (\<lambda>k. sentCount (iteration env j k init_state))
                               [i..<length (numbers j)])"
proof (induction env j i s rule: dispatch_loop.induct)
  case (1 env j i s)
  show ?case
  proof (cases "i < length (numbers j)")
    case True
    then show ?thesis
      using "1.IH" [OF True] iteration_sentCount [of env j i s]
      by (subst dispatch_loop.simps) (simp add: upt_conv_Cons)
  next
    case False
    then show ?thesis by (subst dispatch_loop.simps) simp
  qed
qed

lemma dispatch_loop_skippedCount:
  "skippedCount (dispatch_loop env j i s) =
     skippedCount s + sum_list (map (\<lambda>k. skippedCount (iteration env j k init_state))
                               [i..<length (numbers j)])"
proof (induction env j i s rule: dispatch_loop.induct)
  case (1 env j i s)
  show ?case
  proof (cases "i < length (numbers j)")
    case True
    then show ?thesis
      using "1.IH" [OF True] iteration_skippedCount [of env j i s]
      by (subst dispatch_loop.simps) (simp add: upt_conv_Cons)
  next
    case False
    then show ?thesis by (subst dispatch_loop.simps) simp
  qed
qed

lemma dispatch_loop_failedCount:
  "failedCount (dispatch_loop env j i s) =
     failedCount s + sum_list (map (\<lambda>k. failedCount (iteration env j k init_state))
                               [i..<length (numbers j)])"
proof (induction env j i s rule: dispatch_loop.induct)
  case (1 env j i s)
  show ?case
  proof (cases "i < length (numbers j)")
    case True
    then show ?thesis
      using "1.IH" [OF True] iteration_failedCount [of env j i s]
      by (subst dispatch_loop.simps) (simp add: upt_conv_Cons)
  next
    case False
    then show ?thesis by (subst dispatch_loop.simps) simp
  qed
qed

lemma dispatch_loop_same_iterations:
  assumes "\<And>i s. iteration env' j i s = iteration env j i s"
  shows "dispatch_loop env' j i s = dispatch_loop env j i s"
  using assms
proof (induction env j i s rule: dispatch_loop.induct)
  case (1 env j i s)
  show ?case
  proof (cases "i < length (numbers j)")
    case True
    have "dispatch_loop env' j (Suc i) (iteration env j i s)
            = dispatch_loop env j (Suc i) (iteration env j i s)"
      using "1.IH" [OF True] "1.prems" by blast
    then show ?thesis
      using True "1.prems" [of i s]
      by (subst (1 2) dispatch_loop.simps) simp
  next
    case False
    then show ?thesis by (subst (1 2) dispatch_loop.simps) simp
  qed
qed

lemma dispatch_loop_ignores_readiness:
  "dispatch_loop (env\<lparr>client_ready := b\<rparr>) j i s = dispatch_loop env j i s"
  by (rule dispatch_loop_same_iterations) (rule iteration_ignores_readiness)

lemma one_counter_per_iteration:
  "sentCount (iteration env j i init_state) + skippedCount (iteration env j i init_state)
     + failedCount (iteration env j i init_state) = 1"
  using iteration_pacing [of env j i] by auto

lemma dispatch_loop_counter_sum:
  "sentCount (dispatch_loop env j i s) + skippedCount (dispatch_loop env j i s)
     + failedCount (dispatch_loop env j i s)
   = sentCount s + skippedCount s + failedCount s + (length (numbers j) - i)"
proof (induction env j i s rule: dispatch_loop.induct)
  case (1 env j i s)
  show ?case
  proof (cases "i < length (numbers j)")
    case True
    have "sentCount (iteration env j i s) + skippedCount (iteration env j i s)
            + failedCount (iteration env j i s)
          = sentCount s + skippedCount s + failedCount s + 1"
      using one_counter_per_iteration [of env j i]
      by (simp add: iteration_sentCount [of env j i s] iteration_skippedCount [of env j i s]
          iteration_failedCount [of env j i s])
    with True show ?thesis
      using "1.IH" [OF True]
      by (subst (1 2 3) dispatch_loop.simps) simp
  next
    case False
    then show ?thesis by (subst (1 2 3) dispatch_loop.simps) simp
  qed
qed

lemma emitted_append: "emitted (xs @ ys) = emitted xs @ emitted ys"
  by (induction xs rule: emitted.induct) simp_all

lemma emitted_concat: "emitted (concat xss) = concat (map emitted xss)"
  by (induction xss) (simp_all add: emitted_append)

lemma dispatch_job_counters:
  "sentCount (dispatch_job env j) = sentCount (dispatch_loop env j 0 init_state)"
  "skippedCount (dispatch_job env j) = skippedCount (dispatch_loop env j 0 init_state)"
  "failedCount (dispatch_job env j) = failedCount (dispatch_loop env j 0 init_state)"
  by (simp_all add: dispatch_job_def emit_def log_action_def Let_def)

lemma dispatch_job_trace:
  "trace (dispatch_job env j) =
     concat (map (iteration_actions env j) [0..<length (numbers j)]) @
     [Emit (Done (sentCount (dispatch_job env j)) (skippedCount (dispatch_job env j))
                 (failedCount (dispatch_job env j)))]"
  by (simp add: dispatch_job_def emit_def log_action_def Let_def dispatch_loop_trace init_state_def)

text \<open>What a registered recipient with acceptable media (or none) gets.\<close>

lemma iteration_sent:
  assumes "isRegisteredUser env i (chatId_of (numbers j ! i)) = Inr True"
    and "\<forall>mf. mediaFile j = Some mf \<longrightarrow>
           (startsWith (mimetype mf) (str ''video/'') \<or> startsWith (mimetype mf) (str ''image/''))
           \<and> fsize mf \<le> 16 * 1024 * 1024 \<and> mv env i (uploadPath_of mf) = Inr ()"
    and "\<forall>c. sendMessage env i (chatId_of (numbers j ! i)) c = Inr ()"
  shows "sentCount (iteration env j i init_state) = 1 \<and>
         skippedCount (iteration env j i init_state) = 0 \<and>
         failedCount (iteration env j i init_state) = 0 \<and>
         emitted (iteration_actions env j i) = [SentTo (i + 1) (length (numbers j)) (numbers j ! i)]"
  using assms unfolding iteration_actions_def
  by (cases "mediaFile j") (auto simp add: iteration_defs init_state_def)

lemma iteration_send_rejected:
  assumes "isRegisteredUser env i (chatId_of (numbers j ! i)) = Inr True"
    and "\<forall>mf. mediaFile j = Some mf \<longrightarrow>
           (startsWith (mimetype mf) (str ''video/'') \<or> startsWith (mimetype mf) (str ''image/''))
           \<and> fsize mf \<le> 16 * 1024 * 1024 \<and> mv env i (uploadPath_of mf) = Inr ()"
    and "\<forall>c. sendMessage env i (chatId_of (numbers j ! i)) c = Inl err"
  shows "sentCount (iteration env j i init_state) = 0 \<and>
         skippedCount (iteration env j i init_state) = 0 \<and>
         failedCount (iteration env j i init_state) = 1 \<and>
         emitted (iteration_actions env j i) = [FailedTo (i + 1) (length (numbers j)) (numbers j ! i)]"
  using assms unfolding iteration_actions_def
  by (cases "mediaFile j") (auto simp add: iteration_defs init_state_def)

lemma dispatch_job_event_numbers:
  "map event_number (concat (map (\<lambda>i. emitted (iteration_actions env j i)) [0..<length (numbers j)]))
     = map Some (numbers j)"
proof -
  have "map event_number (concat (map (\<lambda>i. emitted (iteration_actions env j i)) [0..<n]))
          = map (\<lambda>i. Some (numbers j ! i)) [0..<n]" for n
    by (induction n) (simp_all add: iteration_emitted)
  then have "map event_number
          (concat (map (\<lambda>i. emitted (iteration_actions env j i)) [0..<length (numbers j)]))
        = map (\<lambda>i. Some (numbers j ! i)) [0..<length (numbers j)]" .
  also have "\<dots> = map Some (map (\<lambda>i. numbers j ! i) [0..<length (numbers j)])"
    by simp
  also have "\<dots> = map Some (numbers j)"
    by (simp only: map_nth)
  finally show ?thesis .
qed

section \<open>Contact normalisation\<close>

text \<open>
  C3. Every raw entry is stripped of its non-digits, dropped when fewer than ten digits
  remain, and otherwise mapped to the plus sign and the digits when they start with 91,
  or to +91 and the last ten digits; the result holds each identifier once. The three
  spellings of 9876543210 give the single identifier +919876543210.
\<close>

theorem C3_normalizer_is_spec_rule_on_a_set:
  "distinct (normalize_numbers raw) \<and>
   set (normalize_numbers raw) = {y. \<exists>r \<in> set raw. spec_recipient_id r = Some y} \<and>
   normalize_numbers [str ''9876543210'', str ''919876543210'', str ''+919876543210'']
     = [str ''+919876543210'']"
proof -
  have "normalize_numbers [str ''9876543210'', str ''919876543210'', str ''+919876543210'']
     = [str ''+919876543210'']"
    by (simp add: normalize_numbers_def new_Set_def add_country_code_def strip_non_digits_def
        slice_last_def startsWith_def str_def isDigit_def)
  then show ?thesis
    by (simp add: normalize_numbers_set) (simp add: normalize_numbers_def new_Set_distinct)
qed

theorem C3_normalizer_witness:
  "set (normalize_numbers [str ''98765 43210'', str ''12345'', str ''0091-9876543210''])
     = {str ''+919876543210''} \<and> spec_recipient_id (str ''12345'') = None"
proof -
  have a: "spec_recipient_id (str ''98765 43210'') = Some (str ''+919876543210'')"
    by (simp add: spec_recipient_id_def str_def isDigit_def)
  have b: "spec_recipient_id (str ''12345'') = None"
    by (simp add: spec_recipient_id_def str_def isDigit_def)
  have c: "spec_recipient_id (str ''0091-9876543210'') = Some (str ''+919876543210'')"
    by (simp add: spec_recipient_id_def str_def isDigit_def)
  have "set (normalize_numbers [str ''98765 43210'', str ''12345'', str ''0091-9876543210''])
     = {y. \<exists>r \<in> set [str ''98765 43210'', str ''12345'', str ''0091-9876543210''].
              spec_recipient_id r = Some y}"
    using C3_normalizer_is_spec_rule_on_a_set
      [of "[str ''98765 43210'', str ''12345'', str ''0091-9876543210'']"] by blast
  then show ?thesis using a b c by auto
qed

section \<open>Pacing and the skip path\<close>

lemmas loop_unroll = dispatch_loop.simps dispatch_loop_v3.simps

text \<open>
  C1, as the code has it. For a recipient whose registration check resolves to false the
  send operation is not invoked. After an iteration that ends in a sent or a failed
  outcome the loop suspends for exactly one pacing delay, as its last action. Whatever
  the state an iteration starts from, it appends its own actions to the trace.
\<close>

theorem C1_send_skipped_and_pacing_after_sent_or_failed:
  "(isRegisteredUser env i (chatId_of (numbers j ! i)) = Inr False \<longrightarrow>
      filter is_send (iteration_actions env j i) = []) \<and>
   (sentCount (iteration env j i s) = sentCount s + 1 \<or>
    failedCount (iteration env j i s) = failedCount s + 1 \<longrightarrow>
      filter is_delay (iteration_actions env j i) = [Delay (msgDelay j)] \<and>
      last (iteration_actions env j i) = Delay (msgDelay j)) \<and>
   trace (iteration env j i s) = trace s @ iteration_actions env j i"
proof (intro conjI impI)
  assume "isRegisteredUser env i (chatId_of (numbers j ! i)) = Inr False"
  then show "filter is_send (iteration_actions env j i) = []"
    by (simp add: iteration_actions_def iteration_unregistered init_state_def)
next
  assume "sentCount (iteration env j i s) = sentCount s + 1 \<or>
    failedCount (iteration env j i s) = failedCount s + 1"
  then have a: "sentCount (iteration env j i init_state) = 1 \<or>
    failedCount (iteration env j i init_state) = 1"
    using iteration_sentCount [of env j i s] iteration_failedCount [of env j i s] by auto
  with iteration_pacing [of env j i]
  show "filter is_delay (iteration_actions env j i) = [Delay (msgDelay j)]" by auto
  from a iteration_pacing [of env j i]
  show "last (iteration_actions env j i) = Delay (msgDelay j)" by auto
next
  show "trace (iteration env j i s) = trace s @ iteration_actions env j i"
    by (rule iteration_trace)
qed

text \<open>
  C1 as stated fails: both recipients are unregistered, both are skipped, and the job
  ends without a single delay, since \<open>continue\<close> leaves the iteration before
  \<open>await delay(msgDelay)\<close>.
\<close>

theorem C1_no_delay_after_skip_counterexample:
  "isRegisteredUser env_none_registered 0 (chatId_of (numbers (text_job two_numbers) ! 0))
     = Inr False \<and>
   trace (dispatch_job env_none_registered (text_job two_numbers)) =
     [CallIsRegisteredUser (str ''919876543210@c.us''),
      Emit (SkippedNotOnWhatsApp (str ''+919876543210'')),
      CallIsRegisteredUser (str ''919876543211@c.us''),
      Emit (SkippedNotOnWhatsApp (str ''+919876543211'')),
      Emit (Done 0 2 0)] \<and>
   filter is_delay (trace (dispatch_job env_none_registered (text_job two_numbers))) = []"
  by (simp add: example_defs run_defs loop_unroll)

text \<open>A sent iteration ends in its delay; an unregistered recipient gets no send.\<close>

theorem C1_pacing_witness:
  "sentCount (iteration env_all_sent (text_job two_numbers) 0 init_state)
     = sentCount init_state + 1 \<and>
   last (iteration_actions env_all_sent (text_job two_numbers) 0) = Delay 1500 \<and>
   isRegisteredUser env_none_registered 0 (chatId_of (numbers (text_job two_numbers) ! 0))
     = Inr False \<and>
   filter is_send (iteration_actions env_none_registered (text_job two_numbers) 0) = []"
proof -
  have a: "sentCount (iteration env_all_sent (text_job two_numbers) 0 init_state)
             = sentCount init_state + 1"
    by (simp add: example_defs run_defs)
  have b: "isRegisteredUser env_none_registered 0
             (chatId_of (numbers (text_job two_numbers) ! 0)) = Inr False"
    by (simp add: example_defs)
  have c: "msgDelay (text_job two_numbers) = 1500"
    by (simp add: example_defs)
  show ?thesis
    using a b c
      C1_send_skipped_and_pacing_after_sent_or_failed
        [of env_all_sent 0 "text_job two_numbers" init_state]
      C1_send_skipped_and_pacing_after_sent_or_failed
        [of env_none_registered 0 "text_job two_numbers" init_state]
    by simp
qed

section \<open>The scratch file\<close>

text \<open>
  C2. The media file is written, read and removed within one iteration when the send
  succeeds. When \<open>client.sendMessage\<close> rejects after the file was written, the
  \<open>catch\<close> does not remove it: the job ends with the file still in the uploads
  directory, and no \<open>unlinkSync\<close> in its trace.
\<close>

theorem C2_scratch_file_left_after_failed_send:
  "uploads (dispatch_job env_send_rejects (media_job [str ''+919876543210''] picture))
     = {str ''uploads/a.png''} \<and>
   trace (dispatch_job env_send_rejects (media_job [str ''+919876543210''] picture)) =
     [CallIsRegisteredUser (str ''919876543210@c.us''),
      Mv (str ''uploads/a.png''), ReadFileSync (str ''uploads/a.png''),
      CallSendMessage (str ''919876543210@c.us'') (MediaMsg picture (str ''hi'')),
      Emit (FailedTo 1 1 (str ''+919876543210'')), Delay 1500, Emit (Done 0 0 1)] \<and>
   uploads (dispatch_job env_all_sent (media_job [str ''+919876543210''] picture)) = {}"
  by (simp add: example_defs run_defs loop_unroll)

section \<open>Isolation of a failed send\<close>

lemma upt_5: "[0..<5] = [0, 1, 2, 3, 4]"
  by code_simp

text \<open>
  C4. In a batch of five recipients, all registered, where the third recipient's send
  rejects and the other four succeed (any media attached being acceptable and staged
  without error), the job runs all five iterations: four sent events and one failed
  event, in the recipients' order, then one summary event reporting sent 4, skipped 0,
  failed 1. The job is a total function of its inputs, so nothing thrown inside the loop
  leaves it.
\<close>

theorem C4_one_failure_in_five:
  assumes "length (numbers j) = 5"
    and "\<forall>i<5. isRegisteredUser env i (chatId_of (numbers j ! i)) = Inr True"
    and "\<forall>mf. mediaFile j = Some mf \<longrightarrow>
           (startsWith (mimetype mf) (str ''video/'') \<or> startsWith (mimetype mf) (str ''image/''))
           \<and> fsize mf \<le> 16 * 1024 * 1024 \<and> (\<forall>i<5. mv env i (uploadPath_of mf) = Inr ())"
    and "\<forall>c. sendMessage env 2 (chatId_of (numbers j ! 2)) c = Inl err"
    and "\<forall>i<5. i \<noteq> 2 \<longrightarrow> (\<forall>c. sendMessage env i (chatId_of (numbers j ! i)) c = Inr ())"
  shows "sentCount (dispatch_job env j) = 4 \<and>
         failedCount (dispatch_job env j) = 1 \<and>
         skippedCount (dispatch_job env j) = 0 \<and>
         emitted (trace (dispatch_job env j)) =
           [SentTo 1 5 (numbers j ! 0), SentTo 2 5 (numbers j ! 1), FailedTo 3 5 (numbers j ! 2),
            SentTo 4 5 (numbers j ! 3), SentTo 5 5 (numbers j ! 4), Done 4 0 1]"
proof -
  have ok: "sentCount (iteration env j i init_state) = 1 \<and>
         skippedCount (iteration env j i init_state) = 0 \<and>
         failedCount (iteration env j i init_state) = 0 \<and>
         emitted (iteration_actions env j i) = [SentTo (i + 1) 5 (numbers j ! i)]"
    if "i < 5" "i \<noteq> 2" for i
    using iteration_sent [of env i j] assms that by simp
  have bad: "sentCount (iteration env j 2 init_state) = 0 \<and>
         skippedCount (iteration env j 2 init_state) = 0 \<and>
         failedCount (iteration env j 2 init_state) = 1 \<and>
         emitted (iteration_actions env j 2) = [FailedTo 3 5 (numbers j ! 2)]"
    using iteration_send_rejected [of env 2 j err] assms by simp
  have s: "sentCount (dispatch_job env j) = 4"
    using ok [of 0] ok [of 1] ok [of 3] ok [of 4] bad
    by (simp add: dispatch_job_counters dispatch_loop_sentCount assms(1) upt_5 init_state_def)
  have f: "failedCount (dispatch_job env j) = 1"
    using ok [of 0] ok [of 1] ok [of 3] ok [of 4] bad
    by (simp add: dispatch_job_counters dispatch_loop_failedCount assms(1) upt_5 init_state_def)
  have k: "skippedCount (dispatch_job env j) = 0"
    using ok [of 0] ok [of 1] ok [of 3] ok [of 4] bad
    by (simp add: dispatch_job_counters dispatch_loop_skippedCount assms(1) upt_5 init_state_def)
  have "emitted (trace (dispatch_job env j)) =
           [SentTo 1 5 (numbers j ! 0), SentTo 2 5 (numbers j ! 1), FailedTo 3 5 (numbers j ! 2),
            SentTo 4 5 (numbers j ! 3), SentTo 5 5 (numbers j ! 4), Done 4 0 1]"
    using ok [of 0] ok [of 1] ok [of 3] ok [of 4] bad
    by (simp add: dispatch_job_trace emitted_append emitted_concat assms(1) upt_5 s f k)
  with s f k show ?thesis by simp
qed

text \<open>The run with the third send rejected.\<close>

theorem C4_one_failure_in_five_witness:
  "sentCount (dispatch_job env_third_send_rejects (text_job five_numbers)) = 4 \<and>
   failedCount (dispatch_job env_third_send_rejects (text_job five_numbers)) = 1 \<and>
   skippedCount (dispatch_job env_third_send_rejects (text_job five_numbers)) = 0 \<and>
   emitted (trace (dispatch_job env_third_send_rejects (text_job five_numbers))) =
     [SentTo 1 5 (str ''+919876543210''), SentTo 2 5 (str ''+919876543211''),
      FailedTo 3 5 (str ''+919876543212''), SentTo 4 5 (str ''+919876543213''),
      SentTo 5 5 (str ''+919876543214''), Done 4 0 1]"
proof -
  have 1: "length (numbers (text_job five_numbers)) = 5"
    by (simp add: example_defs)
  have 2: "\<forall>i<5. isRegisteredUser env_third_send_rejects i
             (chatId_of (numbers (text_job five_numbers) ! i)) = Inr True"
    by (simp add: example_defs)
  have 3: "\<forall>mf. mediaFile (text_job five_numbers) = Some mf \<longrightarrow>
           (startsWith (mimetype mf) (str ''video/'') \<or> startsWith (mimetype mf) (str ''image/''))
           \<and> fsize mf \<le> 16 * 1024 * 1024 \<and>
           (\<forall>i<5. mv env_third_send_rejects i (uploadPath_of mf) = Inr ())"
    by (simp add: example_defs)
  have 4: "\<forall>c. sendMessage env_third_send_rejects 2
             (chatId_of (numbers (text_job five_numbers) ! 2)) c
             = Inl (Error (str ''Evaluation failed''))"
    by (simp add: example_defs)
  have 5: "\<forall>i<5. i \<noteq> 2 \<longrightarrow> (\<forall>c. sendMessage env_third_send_rejects i
             (chatId_of (numbers (text_job five_numbers) ! i)) c = Inr ())"
    by (simp add: example_defs)
  have n: "numbers (text_job five_numbers) = five_numbers"
    by (simp add: example_defs)
  show ?thesis
    using C4_one_failure_in_five [OF 1 2 3 4 5]
    by (simp add: n) (simp add: five_numbers_def)
qed

section \<open>Facts about the handlers\<close>

lemmas parse_defs = msgDelay_of_def or_default_def parseInt_def ToString_def trimStart_def
  startsWith_def str_def digit_value_def radix_value_def isWhiteSpace_def Let_def

lemmas handler_defs = send_handler_def send_handler_v3_def raw_numbers_def textarea_numbers_def
  excelNumbers_def message_of_def nothing_to_send_def normalize_numbers_def new_Set_def
  add_country_code_def strip_non_digits_def slice_last_def trim_def isDigit_def isWhiteSpace_def
  form_post_def

lemma trim_empty_iff: "trim s = [] \<longleftrightarrow> list_all isWhiteSpace s"
proof
  assume "list_all isWhiteSpace s"
  then have d: "dropWhile isWhiteSpace s = []"
    by (simp add: list_all_iff)
  show "trim s = []"
    unfolding trim_def d by simp
next
  assume t: "trim s = []"
  have "dropWhile isWhiteSpace s = []"
  proof (rule ccontr)
    assume ne: "dropWhile isWhiteSpace s \<noteq> []"
    then have h: "\<not> isWhiteSpace (hd (dropWhile isWhiteSpace s))"
      by (rule hd_dropWhile)
    from t have "\<forall>x \<in> set (dropWhile isWhiteSpace s). isWhiteSpace x"
      by (simp add: trim_def)
    with ne h show False
      by (meson hd_in_set)
  qed
  then show "list_all isWhiteSpace s"
    by (simp add: list_all_iff)
qed

lemma footer_not_blank: "\<not> list_all isWhiteSpace (m @ footer)"
  by (simp add: footer_def str_def isWhiteSpace_def)

lemma trim_footer: "trim (m @ footer) \<noteq> []"
  using footer_not_blank [of m] by (simp only: trim_empty_iff not_False_eq_True)

lemma status_texts_differ:
  "str ''Message or media is required.'' \<noteq> str ''WhatsApp not ready. Please scan QR.''"
  "str ''Message or media is required.'' \<noteq> str ''No valid numbers found.''"
  "str ''No valid numbers found.'' \<noteq> str ''Message or media is required.''"
  "str ''WhatsApp not ready. Please scan QR.'' \<noteq> str ''Message or media is required.''"
  by (simp_all add: str_def)

lemma form_post_numbers:
  "raw_numbers (form_post msg mf) = Inr [str ''9876543210'']"
  "normalize_numbers [str ''9876543210''] = [str ''+919876543210'']"
  by (simp_all add: handler_defs str_def startsWith_def)

lemma dispatch_job_ignores_readiness:
  "dispatch_job (env\<lparr>client_ready := b\<rparr>) j = dispatch_job env j"
  by (simp add: dispatch_job_def dispatch_loop_ignores_readiness)

lemma send_handler_v3_starts:
  assumes "raw_numbers req = Inr raw" and "normalize_numbers raw \<noteq> []"
    and "\<not> nothing_to_send (message_of req @ footer) (files_media req)"
  shows "send_handler_v3 env req =
    (Sending (length (normalize_numbers raw)),
     Some (dispatch_job_v3 env
       \<lparr>numbers = normalize_numbers raw, message = message_of req @ footer,
        mediaFile = files_media req, msgDelay = msgDelay_of (body_delay req)\<rparr>))"
  using assms by (simp add: send_handler_v3_def Let_def)

lemma dispatch_loop_delays:
  "list_all (\<lambda>a. is_delay a \<longrightarrow> a = Delay (msgDelay j))
     (concat (map (iteration_actions env j) [0..<n]))"
  by (induction n) (simp_all add: iteration_delays)

lemma iteration_v3_ignores_readiness:
  "iteration_v3 (env\<lparr>client_ready := b\<rparr>) j i s = iteration_v3 env j i s"
  by (simp add: iteration_v3_def try_body_v3_def Let_def split: sum.splits option.splits)

lemma dispatch_loop_v3_ignores_readiness:
  "dispatch_loop_v3 (env\<lparr>client_ready := b\<rparr>) j i s = dispatch_loop_v3 env j i s"
proof -
  have "dispatch_loop_v3 env' j i s = dispatch_loop_v3 env j i s"
    if "\<And>i s. iteration_v3 env' j i s = iteration_v3 env j i s" for env'
    using that
  proof (induction env j i s rule: dispatch_loop_v3.induct)
    case (1 env j i s)
    show ?case
    proof (cases "i < length (numbers j)")
      case True
      have "dispatch_loop_v3 env' j (Suc i) (iteration_v3 env j i s)
              = dispatch_loop_v3 env j (Suc i) (iteration_v3 env j i s)"
        using "1.IH" [OF True] "1.prems" by blast
      then show ?thesis
        using True "1.prems" [of i s]
        by (subst (1 2) dispatch_loop_v3.simps) simp
    next
      case False
      then show ?thesis by (subst (1 2) dispatch_loop_v3.simps) simp
    qed
  qed
  then show ?thesis
    using iteration_v3_ignores_readiness by blast
qed

lemma dispatch_job_v3_ignores_readiness:
  "dispatch_job_v3 (env\<lparr>client_ready := b\<rparr>) j = dispatch_job_v3 env j"
  by (simp add: dispatch_job_v3_def dispatch_loop_v3_ignores_readiness)

lemma send_handler_v3_ignores_readiness:
  "send_handler_v3 (env\<lparr>client_ready := b\<rparr>) req = send_handler_v3 env req"
  by (simp add: send_handler_v3_def dispatch_job_v3_ignores_readiness Let_def
      split: sum.splits)

lemma iteration_v3_sends_any_media:
  assumes "isRegisteredUser env i (chatId_of (numbers j ! i)) = Inr True"
    and "mediaFile j = Some mf"
  shows "filter is_send (trace (iteration_v3 env j i init_state)) =
           [CallSendMessage (chatId_of (numbers j ! i)) (MediaMsg mf (message j))]"
  using assms
  by (simp add: iteration_v3_def try_body_v3_def catch_block_v3_def after_send_def emit_def
      delay_def log_action_def init_state_def Let_def split: sum.splits js_error.splits)

section \<open>The readiness guard\<close>

text \<open>
  C5, as the code has it. The two handlers with the guard answer a request that arrives
  while the client is not ready with the 400 response "WhatsApp not ready. Please scan
  QR." and start no job; the job itself never consults readiness, so the check is made
  once, before the loop, and not per recipient. The third handler does not consult
  readiness at all: its result is the same whether the client is ready or not.
\<close>

theorem C5_not_ready_is_rejected_before_any_job:
  "(\<not> client_ready env \<longrightarrow>
      send_handler env req = (Status400 (str ''WhatsApp not ready. Please scan QR.''), None)) \<and>
   dispatch_job (env\<lparr>client_ready := b\<rparr>) j = dispatch_job env j \<and>
   send_handler_v3 (env\<lparr>client_ready := b\<rparr>) req = send_handler_v3 env req"
  by (simp add: send_handler_def dispatch_job_ignores_readiness
      send_handler_v3_ignores_readiness)

text \<open>
  C5 as stated fails on the third handler: with the client not ready it acknowledges the
  batch and runs the job.
\<close>

theorem C5_third_handler_starts_when_not_ready:
  "\<not> client_ready env_not_ready \<and>
   fst (send_handler_v3 env_not_ready (form_post (Some (str ''hi'')) None)) = Sending 1 \<and>
   map_option (\<lambda>s. emitted (trace s))
       (snd (send_handler_v3 env_not_ready (form_post (Some (str ''hi'')) None)))
     = Some [SentTo 1 1 (str ''+919876543210''), Done 1 0 0]"
proof -
  have f: "\<not> nothing_to_send (message_of (form_post (Some (str ''hi'')) None) @ footer)
             (files_media (form_post (Some (str ''hi'')) None))"
    by (simp add: nothing_to_send_def trim_footer)
  have n: "normalize_numbers [str ''9876543210''] \<noteq> []"
    by (simp add: form_post_numbers)
  have r: "\<not> client_ready env_not_ready"
    by (simp add: env_not_ready_def)
  have "emitted (trace (dispatch_job_v3 env_not_ready
       \<lparr>numbers = [str ''+919876543210''], message = m,
        mediaFile = None, msgDelay = d\<rparr>)) = [SentTo 1 1 (str ''+919876543210''), Done 1 0 0]"
    for m d
    by (simp add: env_not_ready_def dispatch_job_v3_def loop_unroll init_state_def
        iteration_v3_def try_body_v3_def after_send_def emit_def delay_def log_action_def Let_def)
  moreover have "files_media (form_post (Some (str ''hi'')) None) = None"
    by (simp add: form_post_def)
  ultimately show ?thesis
    using r by (simp add: send_handler_v3_starts [OF form_post_numbers(1) n f] form_post_numbers)
qed


text \<open>A request that arrives while the client is not ready.\<close>

theorem C5_not_ready_witness:
  "\<not> client_ready env_not_ready \<and>
   send_handler env_not_ready (form_post (Some (str ''hi'')) None)
     = (Status400 (str ''WhatsApp not ready. Please scan QR.''), None)"
  using C5_not_ready_is_rejected_before_any_job [of env_not_ready "form_post (Some (str ''hi'')) None"]
  by (simp add: env_not_ready_def)


section \<open>Payload validation\<close>

text \<open>
  C6. The handler answers "Message or media is required." exactly when it got as far as
  the validation (client ready where that is checked, some valid number) and the final
  message is empty or consists of white space only and no media file is attached. In
  the third handler the final message is the posted message followed by the footer. The
  test of line 111 is true exactly for a white-space-only message without media.
\<close>

theorem C6_validation_error_iff_blank_and_no_media:
  "(fst (send_handler env req) = Status400 (str ''Message or media is required.'') \<longleftrightarrow>
      client_ready env \<and> (\<exists>raw. raw_numbers req = Inr raw \<and> normalize_numbers raw \<noteq> []) \<and>
      list_all isWhiteSpace (message_of req) \<and> files_media req = None) \<and>
   (fst (send_handler_v3 env req) = Status400 (str ''Message or media is required.'') \<longleftrightarrow>
      (\<exists>raw. raw_numbers req = Inr raw \<and> normalize_numbers raw \<noteq> []) \<and>
      list_all isWhiteSpace (message_of req @ footer) \<and> files_media req = None) \<and>
   (nothing_to_send msg mf \<longleftrightarrow> list_all isWhiteSpace msg \<and> mf = None)"
proof (intro conjI)
  show "fst (send_handler env req) = Status400 (str ''Message or media is required.'') \<longleftrightarrow>
      client_ready env \<and> (\<exists>raw. raw_numbers req = Inr raw \<and> normalize_numbers raw \<noteq> []) \<and>
      list_all isWhiteSpace (message_of req) \<and> files_media req = None"
    by (cases "raw_numbers req")
      (auto simp add: send_handler_def nothing_to_send_def trim_empty_iff Let_def status_texts_differ)
  show "fst (send_handler_v3 env req) = Status400 (str ''Message or media is required.'') \<longleftrightarrow>
      (\<exists>raw. raw_numbers req = Inr raw \<and> normalize_numbers raw \<noteq> []) \<and>
      list_all isWhiteSpace (message_of req @ footer) \<and> files_media req = None"
    by (cases "raw_numbers req")
      (auto simp add: send_handler_v3_def nothing_to_send_def trim_empty_iff Let_def
        status_texts_differ simp del: list_all_append)
  show "nothing_to_send msg mf \<longleftrightarrow> list_all isWhiteSpace msg \<and> mf = None"
    by (simp add: nothing_to_send_def trim_empty_iff)
qed

text \<open>
  The validator gate: an empty or blank message without media is refused; an empty
  message with media, and a message without media, are not. With the footer appended
  the third handler never refuses.
\<close>

theorem C6_validator_gate_witness:
  "fst (send_handler env_all_sent (form_post (Some []) None))
     = Status400 (str ''Message or media is required.'') \<and>
   fst (send_handler env_all_sent (form_post (Some (str '' '')) None))
     = Status400 (str ''Message or media is required.'') \<and>
   fst (send_handler env_all_sent (form_post (Some []) (Some picture)))
     \<noteq> Status400 (str ''Message or media is required.'') \<and>
   fst (send_handler env_all_sent (form_post (Some (str ''hi'')) None))
     \<noteq> Status400 (str ''Message or media is required.'') \<and>
   fst (send_handler_v3 env_all_sent (form_post (Some []) None))
     \<noteq> Status400 (str ''Message or media is required.'')"
proof -
  have r: "client_ready env_all_sent" by (simp add: env_all_sent_def)
  have m: "message_of (form_post (Some []) None) = []"
    "message_of (form_post (Some (str '' '')) None) = str '' ''"
    "message_of (form_post (Some []) (Some picture)) = []"
    "message_of (form_post (Some (str ''hi'')) None) = str ''hi''"
    "files_media (form_post (Some []) None) = None"
    "files_media (form_post (Some (str '' '')) None) = None"
    "files_media (form_post (Some []) (Some picture)) = Some picture"
    "files_media (form_post (Some (str ''hi'')) None) = None"
    by (simp_all add: message_of_def form_post_def)
  have w: "list_all isWhiteSpace (str '' '')" "\<not> list_all isWhiteSpace (str ''hi'')"
    by (simp_all add: str_def isWhiteSpace_def)
  show ?thesis
    using C6_validation_error_iff_blank_and_no_media [of env_all_sent "form_post (Some []) None"]
      C6_validation_error_iff_blank_and_no_media [of env_all_sent "form_post (Some (str '' '')) None"]
      C6_validation_error_iff_blank_and_no_media [of env_all_sent "form_post (Some []) (Some picture)"]
      C6_validation_error_iff_blank_and_no_media [of env_all_sent "form_post (Some (str ''hi'')) None"]
      footer_not_blank [of "[]"]
    by (simp add: r m w form_post_numbers)
qed

section \<open>Media checks at send time\<close>

text \<open>
  C7, as the code has it. In the handlers that stage the media through a scratch file,
  for every recipient whose registration check resolved to true: media whose type
  starts with neither \<open>video/\<close> nor \<open>image/\<close> makes the iteration count one skip and
  emit the invalid-type event and nothing else (no file, no send, no delay); media of an
  accepted type above 16 MiB makes it count one skip and emit the too-large event and
  nothing else. The third handler checks neither: for a registered recipient it calls
  send with the media, whatever its type and size.
\<close>

theorem C7_media_checked_per_registered_recipient:
  "(isRegisteredUser env i (chatId_of (numbers j ! i)) = Inr True \<and> mediaFile j = Some mf \<and>
    \<not> startsWith (mimetype mf) (str ''video/'') \<and> \<not> startsWith (mimetype mf) (str ''image/'')
    \<longrightarrow>
      iteration env j i s =
        s\<lparr>skippedCount := skippedCount s + 1,
          trace := trace s @ [CallIsRegisteredUser (chatId_of (numbers j ! i)),
                              Emit (SkippedInvalidType (numbers j ! i))]\<rparr>) \<and>
   (isRegisteredUser env i (chatId_of (numbers j ! i)) = Inr True \<and> mediaFile j = Some mf \<and>
    (startsWith (mimetype mf) (str ''video/'') \<or> startsWith (mimetype mf) (str ''image/'')) \<and>
    fsize mf > 16 * 1024 * 1024
    \<longrightarrow>
      iteration env j i s =
        s\<lparr>skippedCount := skippedCount s + 1,
          trace := trace s @ [CallIsRegisteredUser (chatId_of (numbers j ! i)),
                              Emit (SkippedTooLarge (numbers j ! i))]\<rparr>) \<and>
   (isRegisteredUser env i (chatId_of (numbers j ! i)) = Inr True \<and> mediaFile j = Some mf
    \<longrightarrow>
      filter is_send (trace (iteration_v3 env j i init_state)) =
        [CallSendMessage (chatId_of (numbers j ! i)) (MediaMsg mf (message j))])"
  using iteration_invalid_type [of env i j mf s] iteration_too_large [of env i j mf s]
    iteration_v3_sends_any_media [of env i j mf]
  by blast

text \<open>
  C7 as stated fails. The third handler sends a PDF. In the first handler a recipient
  whose registration check rejects is counted as failed, not skipped, although the media
  is of an invalid type: the media checks come after the registration check.
\<close>

theorem C7_third_handler_sends_unchecked_media:
  "\<not> startsWith (mimetype document) (str ''video/'') \<and>
   \<not> startsWith (mimetype document) (str ''image/'') \<and>
   trace (dispatch_job_v3 env_all_sent (media_job [str ''+919876543210''] document)) =
     [CallIsRegisteredUser (str ''919876543210@c.us''),
      CallSendMessage (str ''919876543210@c.us'') (MediaMsg document (str ''hi'')),
      Emit (SentTo 1 1 (str ''+919876543210'')), Delay 1500, Emit (Done 1 0 0)] \<and>
   emitted (trace (dispatch_job env_registration_rejects
                     (media_job [str ''+919876543210''] document))) =
     [FailedTo 1 1 (str ''+919876543210''), Done 0 0 1]"
  by (simp add: example_defs run_defs loop_unroll dispatch_job_v3_def iteration_v3_def
      try_body_v3_def)

text \<open>A PDF for two registered recipients, and an oversize video.\<close>

theorem C7_media_skip_witness:
  "trace (dispatch_job env_all_sent (media_job two_numbers document)) =
     [CallIsRegisteredUser (str ''919876543210@c.us''),
      Emit (SkippedInvalidType (str ''+919876543210'')),
      CallIsRegisteredUser (str ''919876543211@c.us''),
      Emit (SkippedInvalidType (str ''+919876543211'')),
      Emit (Done 0 2 0)] \<and>
   iteration env_all_sent (media_job two_numbers long_video) 1 init_state =
     init_state\<lparr>skippedCount := 1,
       trace := [CallIsRegisteredUser (str ''919876543211@c.us''),
                 Emit (SkippedTooLarge (str ''+919876543211''))]\<rparr>"
proof -
  have r: "isRegisteredUser env_all_sent i c = Inr True" for i c
    by (simp add: env_all_sent_def)
  have d: "mediaFile (media_job two_numbers document) = Some document"
    "\<not> startsWith (mimetype document) (str ''video/'')"
    "\<not> startsWith (mimetype document) (str ''image/'')"
    by (simp_all add: media_job_def document_def startsWith_def str_def)
  have v: "mediaFile (media_job two_numbers long_video) = Some long_video"
    "startsWith (mimetype long_video) (str ''video/'')"
    "fsize long_video > 16 * 1024 * 1024"
    by (simp_all add: media_job_def long_video_def startsWith_def str_def)
  have n: "numbers (media_job two_numbers mf) = two_numbers" for mf
    by (simp add: media_job_def)
  have step: "iteration env_all_sent (media_job two_numbers document) i s =
        s\<lparr>skippedCount := skippedCount s + 1,
          trace := trace s @ [CallIsRegisteredUser (chatId_of (two_numbers ! i)),
                              Emit (SkippedInvalidType (two_numbers ! i))]\<rparr>" for i s
    using C7_media_checked_per_registered_recipient [of env_all_sent i "media_job two_numbers document" document s] r d
    by (simp add: n)
  have big: "iteration env_all_sent (media_job two_numbers long_video) 1 init_state =
        init_state\<lparr>skippedCount := skippedCount init_state + 1,
          trace := trace init_state @ [CallIsRegisteredUser (chatId_of (two_numbers ! 1)),
                              Emit (SkippedTooLarge (two_numbers ! 1))]\<rparr>"
    using C7_media_checked_per_registered_recipient [of env_all_sent 1 "media_job two_numbers long_video" long_video init_state] r v
    by (simp add: n)
  have len: "length two_numbers = 2"
    by (simp add: two_numbers_def)
  have run: "trace (dispatch_job env_all_sent (media_job two_numbers document)) =
     [CallIsRegisteredUser (chatId_of (two_numbers ! 0)),
      Emit (SkippedInvalidType (two_numbers ! 0)),
      CallIsRegisteredUser (chatId_of (two_numbers ! 1)),
      Emit (SkippedInvalidType (two_numbers ! 1)),
      Emit (Done 0 2 0)]"
    by (simp add: dispatch_job_def loop_unroll n len step init_state_def emit_def
        log_action_def Let_def)
  show ?thesis
    unfolding run big
    by (simp add: two_numbers_def init_state_def chatId_of_def str_def)
qed

section \<open>Order of the events\<close>

text \<open>
  C8. The trace of a job is the actions of iteration 0, then of iteration 1, and so on,
  then the summary event. Each iteration emits exactly one event; it names that
  iteration's recipient, the iteration's collaborator calls (registration check, file
  staging, send) all come before it, and only the pacing delay may follow it. So the
  events name the recipients in processing order and the summary is the last event.
\<close>

theorem C8_events_in_recipient_order_summary_last:
  "trace (dispatch_job env j) =
     concat (map (iteration_actions env j) [0..<length (numbers j)]) @
     [Emit (Done (sentCount (dispatch_job env j)) (skippedCount (dispatch_job env j))
                 (failedCount (dispatch_job env j)))] \<and>
   (\<forall>i<length (numbers j). \<exists>before e after.
      iteration_actions env j i = before @ [Emit e] @ after \<and>
      event_number e = Some (numbers j ! i) \<and>
      list_all (\<lambda>a. \<not> is_emit a) before \<and> list_all is_delay after) \<and>
   map event_number (emitted (trace (dispatch_job env j))) = map Some (numbers j) @ [None]"
proof (intro conjI)
  show "trace (dispatch_job env j) =
     concat (map (iteration_actions env j) [0..<length (numbers j)]) @
     [Emit (Done (sentCount (dispatch_job env j)) (skippedCount (dispatch_job env j))
                 (failedCount (dispatch_job env j)))]"
    by (rule dispatch_job_trace)
  show "\<forall>i<length (numbers j). \<exists>before e after.
      iteration_actions env j i = before @ [Emit e] @ after \<and>
      event_number e = Some (numbers j ! i) \<and>
      list_all (\<lambda>a. \<not> is_emit a) before \<and> list_all is_delay after"
    using iteration_events [of env j] by blast
  show "map event_number (emitted (trace (dispatch_job env j))) = map Some (numbers j) @ [None]"
    by (subst dispatch_job_trace)
      (simp add: emitted_append emitted_concat comp_def dispatch_job_event_numbers)
qed

text \<open>Two recipients whose sends are rejected.\<close>

theorem C8_event_order_witness:
  "(1::nat) < length (numbers (text_job two_numbers)) \<and>
   (\<exists>before e after.
      iteration_actions env_send_rejects (text_job two_numbers) 1 = before @ [Emit e] @ after \<and>
      event_number e = Some (str ''+919876543211'') \<and>
      list_all (\<lambda>a. \<not> is_emit a) before \<and> list_all is_delay after) \<and>
   map event_number (emitted (trace (dispatch_job env_send_rejects (text_job two_numbers))))
     = [Some (str ''+919876543210''), Some (str ''+919876543211''), None]"
proof -
  have n: "numbers (text_job two_numbers) = two_numbers"
    by (simp add: text_job_def)
  have l: "(1::nat) < length two_numbers" "two_numbers ! 1 = str ''+919876543211''"
    "map Some two_numbers = [Some (str ''+919876543210''), Some (str ''+919876543211'')]"
    by (simp_all add: two_numbers_def)
  note t = C8_events_in_recipient_order_summary_last [of env_send_rejects "text_job two_numbers", unfolded n]
  from t have "\<forall>i<length two_numbers. \<exists>before e after.
      iteration_actions env_send_rejects (text_job two_numbers) i = before @ [Emit e] @ after \<and>
      event_number e = Some (two_numbers ! i) \<and>
      list_all (\<lambda>a. \<not> is_emit a) before \<and> list_all is_delay after"
    by blast
  then have "\<exists>before e after.
      iteration_actions env_send_rejects (text_job two_numbers) 1 = before @ [Emit e] @ after \<and>
      event_number e = Some (two_numbers ! 1) \<and>
      list_all (\<lambda>a. \<not> is_emit a) before \<and> list_all is_delay after"
    using l(1) by blast
  moreover from t have "map event_number
      (emitted (trace (dispatch_job env_send_rejects (text_job two_numbers))))
        = map Some two_numbers @ [None]"
    by blast
  ultimately show ?thesis
    using l by (simp add: n)
qed

section \<open>The pacing delay\<close>

text \<open>
  C9, as the code has it. The number the loop hands to its timer is never below 1500.
  When the posted value parses to a non-zero integer, that number is the larger of the
  integer and 1500; when the integer is also within the timer's range (at most
  2147483647), the loop pauses for exactly that long, so for at least 1500 ms. A posted
  500 gives a pause of 1500 ms and a posted 5000 a pause of 5000 ms. Every delay of a
  job is made with the job's number.
\<close>

theorem C9_delay_floor_of_parsed_or_default:
  "1500 \<le> msgDelay_of d \<and>
   (\<forall>n. parseInt d = Some n \<and> n \<noteq> 0 \<longrightarrow> msgDelay_of d = max n 1500) \<and>
   (\<forall>n. parseInt d = Some n \<and> n \<noteq> 0 \<and> n \<le> 2147483647 \<longrightarrow>
        timer_pause (msgDelay_of d) = max n 1500 \<and> 1500 \<le> timer_pause (msgDelay_of d)) \<and>
   msgDelay_of (Some (str ''500'')) = 1500 \<and>
   timer_pause (msgDelay_of (Some (str ''500''))) = 1500 \<and>
   msgDelay_of (Some (str ''5000'')) = 5000 \<and>
   timer_pause (msgDelay_of (Some (str ''5000''))) = 5000 \<and>
   list_all (\<lambda>a. is_delay a \<longrightarrow> a = Delay (msgDelay j)) (trace (dispatch_job env j))"
proof (intro conjI)
  show "1500 \<le> msgDelay_of d"
    by (simp add: msgDelay_of_def)
  show "\<forall>n. parseInt d = Some n \<and> n \<noteq> 0 \<longrightarrow> msgDelay_of d = max n 1500"
    by (simp add: msgDelay_of_def or_default_def)
  show "\<forall>n. parseInt d = Some n \<and> n \<noteq> 0 \<and> n \<le> 2147483647 \<longrightarrow>
        timer_pause (msgDelay_of d) = max n 1500 \<and> 1500 \<le> timer_pause (msgDelay_of d)"
    by (auto simp add: msgDelay_of_def or_default_def timer_pause_def)
  have a: "msgDelay_of (Some (str ''500'')) = 1500"
    by (simp add: parse_defs)
  have b: "msgDelay_of (Some (str ''5000'')) = 5000"
    by (simp add: parse_defs)
  show "msgDelay_of (Some (str ''500'')) = 1500"
    by (rule a)
  show "timer_pause (msgDelay_of (Some (str ''500''))) = 1500"
    by (simp add: a timer_pause_def)
  show "msgDelay_of (Some (str ''5000'')) = 5000"
    by (rule b)
  show "timer_pause (msgDelay_of (Some (str ''5000''))) = 5000"
    by (simp add: b timer_pause_def)
  show "list_all (\<lambda>a. is_delay a \<longrightarrow> a = Delay (msgDelay j)) (trace (dispatch_job env j))"
    by (subst dispatch_job_trace) (simp add: dispatch_loop_delays)
qed

text \<open>
  C9 as stated fails twice. At a requested delay of 0 the floor-clamp of 0 against 1500
  is 1500, and the code hands 2000 to the timer. At a requested delay of 2147483648 the
  code hands that number on unchanged, line 115 having no upper bound, and the timer
  then pauses for 1 ms: the loop paces faster than the minimum.
\<close>

theorem C9_zero_delay_gives_default_not_floor:
  "parseInt (Some (str ''0'')) = Some 0 \<and> msgDelay_of (Some (str ''0'')) \<noteq> max 0 1500 \<and>
   parseInt (Some (str ''2147483648'')) = Some 2147483648 \<and>
   msgDelay_of (Some (str ''2147483648'')) = 2147483648 \<and>
   timer_pause (msgDelay_of (Some (str ''2147483648''))) = 1"
proof -
  have a: "parseInt (Some (str ''0'')) = Some 0 \<and> msgDelay_of (Some (str ''0'')) \<noteq> max 0 1500"
    by (simp add: parse_defs)
  have b: "parseInt (Some (str ''2147483648'')) = Some 2147483648"
    by (simp add: parse_defs)
  have c: "msgDelay_of (Some (str ''2147483648'')) = 2147483648"
    by (simp add: msgDelay_of_def or_default_def b)
  show ?thesis
    using a b c by (simp add: timer_pause_def)
qed

text \<open>A value above the floor, a negative value, and a job's only delay.\<close>

theorem C9_delay_floor_witness:
  "parseInt (Some (str ''2500'')) = Some 2500 \<and> (2500::int) \<le> 2147483647 \<and>
   msgDelay_of (Some (str ''2500'')) = 2500 \<and>
   timer_pause (msgDelay_of (Some (str ''2500''))) = 2500 \<and>
   parseInt (Some (str ''-7'')) = Some (- 7) \<and> msgDelay_of (Some (str ''-7'')) = 1500 \<and>
   timer_pause (msgDelay_of (Some (str ''-7''))) = 1500 \<and>
   trace (dispatch_job env_all_sent (text_job [str ''+919876543210''])) =
     [CallIsRegisteredUser (str ''919876543210@c.us''),
      CallSendMessage (str ''919876543210@c.us'') (TextMsg (str ''hi'')),
      Emit (SentTo 1 1 (str ''+919876543210'')), Delay 1500, Emit (Done 1 0 0)]"
proof -
  have a: "parseInt (Some (str ''2500'')) = Some 2500" by (simp add: parse_defs)
  have b: "parseInt (Some (str ''-7'')) = Some (- 7)" by (simp add: parse_defs)
  have c: "trace (dispatch_job env_all_sent (text_job [str ''+919876543210''])) =
     [CallIsRegisteredUser (str ''919876543210@c.us''),
      CallSendMessage (str ''919876543210@c.us'') (TextMsg (str ''hi'')),
      Emit (SentTo 1 1 (str ''+919876543210'')), Delay 1500, Emit (Done 1 0 0)]"
    by (simp add: example_defs run_defs loop_unroll)
  have n: "(2500::int) \<noteq> 0" "(2500::int) \<le> 2147483647"
    "(- 7::int) \<noteq> 0" "(- 7::int) \<le> 2147483647"
    by simp_all
  have p: "msgDelay_of (Some (str ''2500'')) = max 2500 1500"
    "timer_pause (msgDelay_of (Some (str ''2500''))) = max 2500 1500"
    using C9_delay_floor_of_parsed_or_default [of "Some (str ''2500'')"] a n by blast+
  have q: "msgDelay_of (Some (str ''-7'')) = max (- 7) 1500"
    "timer_pause (msgDelay_of (Some (str ''-7''))) = max (- 7) 1500"
    using C9_delay_floor_of_parsed_or_default [of "Some (str ''-7'')"] b n by blast+
  have p1: "msgDelay_of (Some (str ''2500'')) = 2500"
    using p(1) by simp
  have p2: "timer_pause (msgDelay_of (Some (str ''2500''))) = 2500"
    using p(2) by simp
  have q1: "msgDelay_of (Some (str ''-7'')) = 1500"
    using q(1) by simp
  have q2: "timer_pause (msgDelay_of (Some (str ''-7''))) = 1500"
    using q(2) by simp
  show ?thesis
    by (intro conjI) (rule a b c p1 p2 q1 q2 n(2))+
qed

section \<open>The counters\<close>

text \<open>
  C10. Each iteration increments exactly one of the three counters by one. After the
  loop the three counters add up to the number of recipients, and the summary event,
  the last action of the job, reports these counters. When the posted delay is absent,
  or parses to NaN or to 0, the delay is 2000 ms.
\<close>

theorem C10_counters_sum_to_total_and_default_delay:
  "sentCount (dispatch_job env j) + skippedCount (dispatch_job env j)
     + failedCount (dispatch_job env j) = length (numbers j) \<and>
   last (trace (dispatch_job env j)) =
     Emit (Done (sentCount (dispatch_job env j)) (skippedCount (dispatch_job env j))
                (failedCount (dispatch_job env j))) \<and>
   (sentCount (iteration env j i s), skippedCount (iteration env j i s),
    failedCount (iteration env j i s))
     \<in> {(sentCount s + 1, skippedCount s, failedCount s),
        (sentCount s, skippedCount s + 1, failedCount s),
        (sentCount s, skippedCount s, failedCount s + 1)} \<and>
   (parseInt d = None \<or> parseInt d = Some 0 \<longrightarrow> msgDelay_of d = 2000) \<and>
   msgDelay_of None = 2000"
proof (intro conjI)
  show "sentCount (dispatch_job env j) + skippedCount (dispatch_job env j)
     + failedCount (dispatch_job env j) = length (numbers j)"
    using dispatch_loop_counter_sum [of env j 0 init_state]
    by (simp add: dispatch_job_counters init_state_def)
  show "last (trace (dispatch_job env j)) =
     Emit (Done (sentCount (dispatch_job env j)) (skippedCount (dispatch_job env j))
                (failedCount (dispatch_job env j)))"
    by (subst dispatch_job_trace) simp
  show "(sentCount (iteration env j i s), skippedCount (iteration env j i s),
    failedCount (iteration env j i s))
     \<in> {(sentCount s + 1, skippedCount s, failedCount s),
        (sentCount s, skippedCount s + 1, failedCount s),
        (sentCount s, skippedCount s, failedCount s + 1)}"
    using iteration_pacing [of env j i]
    by (auto simp add: iteration_sentCount [of env j i s] iteration_skippedCount [of env j i s]
        iteration_failedCount [of env j i s])
  show "parseInt d = None \<or> parseInt d = Some 0 \<longrightarrow> msgDelay_of d = 2000"
    by (auto simp add: msgDelay_of_def or_default_def)
  show "msgDelay_of None = 2000"
    by (simp add: parse_defs)
qed

text \<open>An unparsable delay, a zero delay, and the counters of a batch of five.\<close>

theorem C10_counter_sum_witness:
  "parseInt (Some (str ''abc'')) = None \<and> msgDelay_of (Some (str ''abc'')) = 2000 \<and>
   parseInt (Some (str ''0'')) = Some 0 \<and> msgDelay_of (Some (str ''0'')) = 2000 \<and>
   sentCount (dispatch_job env_third_send_rejects (text_job five_numbers))
     + skippedCount (dispatch_job env_third_send_rejects (text_job five_numbers))
     + failedCount (dispatch_job env_third_send_rejects (text_job five_numbers)) = 5"
proof -
  have a: "parseInt (Some (str ''abc'')) = None" by (simp add: parse_defs)
  have b: "parseInt (Some (str ''0'')) = Some 0" by (simp add: parse_defs)
  have c: "length (numbers (text_job five_numbers)) = 5" by (simp add: example_defs)
  show ?thesis
    using a b c C10_counters_sum_to_total_and_default_delay [of env_third_send_rejects "text_job five_numbers" _ _ "Some (str ''abc'')"]
      C10_counters_sum_to_total_and_default_delay [of env_third_send_rejects "text_job five_numbers" _ _ "Some (str ''0'')"]
    by simp
qed

end
